theory Spec2Isabelle
  imports Main "HOL-Library.Sublist" "HOL-Library.Word"
begin

section \<open>Data of the program\<close>

text \<open>
  The program (\<^verbatim>\<open>main.go\<close>) is one AWS Lambda handler: it logs in at a web site, asks
  the site for free storage units and publishes an SNS message when the answer does not
  say that the search had no hits.

  Go strings and byte slices are byte sequences: \<open>string\<close> here, one \<open>char\<close> per byte.
  The source file is UTF-8, so each non-ASCII letter of a literal is two bytes, written
  \<open>CHR 0x..\<close>. A Go \<open>error\<close> made by \<^verbatim>\<open>fmt.Errorf\<close> is modelled by its message.
\<close>

type_synonym error = string
type_synonym bytes = string

datatype cookie = Cookie (Name: string) (Value: string)

text \<open>
  The cookie jar of the client is modelled by the \<^verbatim>\<open>SetCookies(u, cookies)\<close> calls made
  on it, oldest first. Which of the stored cookies \<^verbatim>\<open>Cookies(u)\<close> hands out for a later
  request (domain, path and expiry matching of \<^verbatim>\<open>net/http/cookiejar\<close>) is left to the
  network parameter below, which sees the whole client.
\<close>

type_synonym jar = "(string \<times> cookie list) list"

definition SetCookies :: "jar \<Rightarrow> string \<Rightarrow> cookie list \<Rightarrow> jar" where
  "SetCookies j u cs = j @ [(u, cs)]"

record request =
  Method :: string
  URL :: string
  Payload :: bytes
  Header :: "(string \<times> string) list"

text \<open>
  A response as \<^verbatim>\<open>sendHTTPRequest\<close> uses it: the status code, the cookies that
  \<^verbatim>\<open>resp.Cookies()\<close> parses from it, what \<^verbatim>\<open>ioutil.ReadAll(resp.Body)\<close> yields (an
  error or all the bytes), and \<^verbatim>\<open>resp.Request\<close>, the request that obtained it.
\<close>

record response =
  StatusCode :: int
  Cookies :: "cookie list"
  Body :: "error + bytes"
  Request :: request

text \<open>
  \<^verbatim>\<open>http.Client\<close> with the three fields the program sets. \<open>Timeout\<close> is a
  \<^verbatim>\<open>time.Duration\<close>, an int64 count of nanoseconds.
\<close>

record client =
  Jar :: jar
  Timeout :: "64 word"
  CheckRedirect :: "request \<Rightarrow> request list \<Rightarrow> error option"

text \<open>What the program does to the outside, in the order it does it.\<close>

datatype event =
    EvLookupEnv string
  | EvDo request
  | EvLog string
  | EvLoadAWSConfig
  | EvPublish string string string

text \<open>
  Everything the program reads from outside is a parameter:
  \<^item> \<open>Environ\<close>: the process environment (\<^verbatim>\<open>os.LookupEnv\<close>);
  \<^item> \<open>Now\<close>: \<^verbatim>\<open>time.Now()\<close> in nanoseconds since the Unix epoch, given the events so far;
  \<^item> \<open>cookiejar_New\<close>: the error of \<^verbatim>\<open>cookiejar.New(nil)\<close>, if any;
  \<^item> \<open>NewRequest_error\<close>: the error of \<^verbatim>\<open>http.NewRequest(method, url, _)\<close>, if any
    (an invalid method or a URL that does not parse);
  \<^item> \<open>RoundTrip\<close>: what the network answers to a request sent by a client, or the
    transport error;
  \<^item> \<open>LoadDefaultAWSConfig\<close>: the error of \<^verbatim>\<open>external.LoadDefaultAWSConfig()\<close>, if any;
  \<^item> \<open>Publish\<close>: the error of the SNS publish call for subject, message and topic, if any.
\<close>

record extern =
  Environ :: "string \<rightharpoonup> string"
  Now :: "event list \<Rightarrow> int"
  cookiejar_New :: "error option"
  NewRequest_error :: "string \<Rightarrow> string \<Rightarrow> error option"
  RoundTrip :: "client \<Rightarrow> request \<Rightarrow> error + response"
  LoadDefaultAWSConfig :: "error option"
  Publish :: "string \<Rightarrow> string \<Rightarrow> string \<Rightarrow> error option"

section \<open>Library functions the program calls\<close>

text \<open>\<^verbatim>\<open>strings.Contains(s, substr)\<close>: a byte-wise search, true for the empty \<open>substr\<close>.\<close>

fun Contains :: "string \<Rightarrow> string \<Rightarrow> bool" where
  "Contains [] substr = (substr = [])"
| "Contains (c # s) substr = (prefix substr (c # s) \<or> Contains s substr)"

text \<open>
  \<^verbatim>\<open>strings.ReplaceAll(s, old, new)\<close> for a non-empty \<open>old\<close>: the non-overlapping
  occurrences of \<open>old\<close>, found from the left, are replaced by \<open>new\<close>. (For an empty
  \<open>old\<close> Go inserts \<open>new\<close> around every UTF-8 sequence; the program never asks for
  that, and the equation below leaves \<open>s\<close> as it is.)
\<close>

function ReplaceAll :: "string \<Rightarrow> string \<Rightarrow> string \<Rightarrow> string" where
  "ReplaceAll s old new =
     (if old = [] \<or> s = [] then s
      else if prefix old s then new @ ReplaceAll (drop (length old) s) old new
      else hd s # ReplaceAll (tl s) old new)"
  by pat_completeness auto
termination
  by (relation "measure (\<lambda>(s, old, new). length s)") (auto simp: neq_Nil_conv)

declare ReplaceAll.simps [simp del]

text \<open>\<^verbatim>\<open>fmt.Sprintf("%d", i)\<close>: the decimal digits of \<open>i\<close>, after a minus sign if \<open>i < 0\<close>.\<close>

definition digit :: "int \<Rightarrow> char" where
  "digit n = char_of (48 + n)"

function itoa :: "int \<Rightarrow> string" where
  "itoa n = (if n < 10 then [digit n] else itoa (n div 10) @ [digit (n mod 10)])"
  by pat_completeness auto
termination
  by (relation "measure nat") auto

declare itoa.simps [simp del]

definition Sprintf_d :: "int \<Rightarrow> string" where
  "Sprintf_d i = (if i < 0 then CHR ''-'' # itoa (- i) else itoa i)"

text \<open>
  \<^verbatim>\<open>time.Time.Unix()\<close>: whole seconds since the epoch, an int64. \<open>UnixMilli\<close> is the
  same instant in milliseconds; the program does not call it, the statement about the
  substituted time compares with it.
\<close>

definition Unix :: "int \<Rightarrow> 64 word" where
  "Unix t = word_of_int (t div 1000000000)"

definition UnixMilli :: "int \<Rightarrow> int" where
  "UnixMilli t = t div 1000000"

text \<open>
  \<^verbatim>\<open>req.Header.Set(key, val)\<close>: the entry of \<open>key\<close> is overwritten, or added. The
  header map is kept as the list of its entries.
\<close>

fun Header_Set :: "string \<Rightarrow> string \<Rightarrow> (string \<times> string) list \<Rightarrow> (string \<times> string) list" where
  "Header_Set key val [] = [(key, val)]"
| "Header_Set key val ((k, v) # h) =
     (if k = key then (key, val) # h else (k, v) # Header_Set key val h)"

definition ErrUseLastResponse :: error where
  "ErrUseLastResponse = ''net/http: use last response''"

text \<open>
  \<^verbatim>\<open>client.Do(req)\<close> for a client with a jar whose redirect policy stops at the first
  response, as every client of this program does (\<open>createHTTPClient\<close> below): one round
  trip, and the response is handed back whatever its status. As documented for the
  \<^verbatim>\<open>Jar\<close> field of \<^verbatim>\<open>http.Client\<close> (``The Jar is used to insert relevant cookies into
  every outbound Request and is updated with the cookie values of every inbound
  Response''), \<^verbatim>\<open>Do\<close> itself stores the cookies of a response it receives, under the URL of
  the request, when there are any (\<^verbatim>\<open>Client.send\<close> in \<^verbatim>\<open>net/http/client.go\<close>).
\<close>

definition client_Do ::
  "extern \<Rightarrow> client \<Rightarrow> request \<Rightarrow> event list \<Rightarrow> (error + response) \<times> client \<times> event list" where
  "client_Do x c req tr =
     (case RoundTrip x c req of
        Inl err \<Rightarrow> (Inl err, c, tr @ [EvDo req])
      | Inr resp \<Rightarrow>
          (Inr resp,
           (if Cookies resp \<noteq> [] then c\<lparr>Jar := SetCookies (Jar c) (URL req) (Cookies resp)\<rparr> else c),
           tr @ [EvDo req]))"

section \<open>The program\<close>

definition searchString :: string where
  "searchString = ''S'' @ [CHR 0xC3, CHR 0xB6] @ ''kningen gav inga tr'' @ [CHR 0xC3, CHR 0xA4] @ ''ffar''"

definition snsSubject :: string where
  "snsSubject = ''Nytt f'' @ [CHR 0xC3, CHR 0xB6] @ ''rr'' @ [CHR 0xC3, CHR 0xA5] @ ''d!''"

definition snsMessage :: string where
  "snsMessage =
     ''Det verkar finnas ett nytt f'' @ [CHR 0xC3, CHR 0xB6] @ ''rr'' @ [CHR 0xC3, CHR 0xA5]
     @ ''d tillg'' @ [CHR 0xC3, CHR 0xA4] @ ''ngligt!'' @ [CHR 0x0A, CHR 0x0A]
     @ ''G'' @ [CHR 0xC3, CHR 0xA5] @ '' till https://www.stockholmshem.se/mina-sidor/smaforrad/ f''
     @ [CHR 0xC3, CHR 0xB6] @ ''r att kontrollera''"

text \<open>The Go map \<^verbatim>\<open>headers\<close>, as the list of its entries.\<close>

definition headers :: "(string \<times> string) list" where
  "headers =
     [(''User-Agent'', ''Mozilla/5.0 (Macintosh; Intel Mac OS X 10_15_0) AppleWebKit/537.36 (KHTML, like Gecko) Chrome/84.0.4147.89 Safari/537.36''),
      (''Accept'', ''*/*''),
      (''Content-Type'', ''application/x-www-form-urlencoded'')]"

text \<open>
  \<^verbatim>\<open>createHTTPClient(timeout)\<close>: a new, empty jar, the timeout in nanoseconds (an int64
  product, which wraps), and a redirect policy that answers \<^verbatim>\<open>http.ErrUseLastResponse\<close>
  to every redirect.
\<close>

definition createHTTPClient :: "extern \<Rightarrow> 64 word \<Rightarrow> error + client" where
  "createHTTPClient x timeout =
     (case cookiejar_New x of
        Some err \<Rightarrow> Inl (''couldn't create cookie jar. '' @ err)
      | None \<Rightarrow>
          Inr \<lparr>Jar = [], Timeout = 1000000 * timeout,
               CheckRedirect = (\<lambda>req via. Some ErrUseLastResponse)\<rparr>)"

text \<open>
  \<^verbatim>\<open>createHTTPRequest\<close>. \<open>now\<close> is the int64 product \<^verbatim>\<open>time.Now().Unix() * 1000\<close>,
  printed as a signed decimal. \<^verbatim>\<open>req.Header.Set\<close> overwrites the entry of the key (the
  keys of this program are already in canonical form).
\<close>

definition epoch :: string where
  "epoch = ''{epoch}''"

definition createHTTPRequest ::
  "extern \<Rightarrow> string \<Rightarrow> string \<Rightarrow> bytes \<Rightarrow> (string \<times> string) list \<Rightarrow> event list \<Rightarrow> error + request" where
  "createHTTPRequest x method url payload hdrs tr =
     (let now = Unix (Now x tr) * 1000;
          url1 = ReplaceAll url epoch (Sprintf_d (sint now))
      in case NewRequest_error x method url1 of
           Some err \<Rightarrow>
             Inl (''couldn't create request for '' @ method @ '' '' @ url1 @ ''. '' @ err)
         | None \<Rightarrow>
             Inr \<lparr>Method = method, URL = url1, Payload = payload,
                  Header = fold (\<lambda>(key, val) h. Header_Set key val h) hdrs []\<rparr>)"

text \<open>
  \<^verbatim>\<open>sendHTTPRequest\<close> returns a body and an error, and on a status mismatch both:
  the result is a pair of options, \<open>None\<close> for Go's \<^verbatim>\<open>nil\<close>. The client is a pointer
  in Go; here the client as the call leaves it is returned.
\<close>

definition sendHTTPRequest ::
  "extern \<Rightarrow> client \<Rightarrow> request \<Rightarrow> int \<Rightarrow> event list
     \<Rightarrow> (bytes option \<times> error option) \<times> client \<times> event list" where
  "sendHTTPRequest x c req statusCode tr =
     (case client_Do x c req tr of
        (Inl err, c1, tr1) \<Rightarrow> ((None, Some (''couldn't send http request. '' @ err)), c1, tr1)
      | (Inr resp, c1, tr1) \<Rightarrow>
          (case Body resp of
             Inl err \<Rightarrow> ((None, Some (''couldn't read body of response. '' @ err)), c1, tr1)
           | Inr body \<Rightarrow>
               if StatusCode resp \<noteq> statusCode then
                 ((Some body,
                   Some (''status code missmatch. wanted '' @ Sprintf_d statusCode @ '' got ''
                         @ Sprintf_d (StatusCode resp) @ '' for '' @ URL (Request resp))),
                  c1, tr1)
               else
                 ((Some body, None),
                  c1\<lparr>Jar := SetCookies (Jar c1) (URL (Request resp)) (Cookies resp)\<rparr>, tr1)))"

definition createLoginPayload :: "extern \<Rightarrow> event list \<Rightarrow> (error + bytes) \<times> event list" where
  "createLoginPayload x tr =
     (case Environ x ''PERSONNR'' of
        None \<Rightarrow> (Inl ''couldn't get PERSONNR from environment'', tr @ [EvLookupEnv ''PERSONNR''])
      | Some user \<Rightarrow>
          (case Environ x ''PASSWORD'' of
             None \<Rightarrow>
               (Inl ''couldn't get PASSWORD from environment'',
                tr @ [EvLookupEnv ''PERSONNR'', EvLookupEnv ''PASSWORD''])
           | Some pass \<Rightarrow>
               (Inr (''Username='' @ user @ ''&Password='' @ pass),
                tr @ [EvLookupEnv ''PERSONNR'', EvLookupEnv ''PASSWORD''])))"

definition loginURL :: string where
  "loginURL = ''https://www.stockholmshem.se/logga-in/?returnUrl=/mina-sidor/smaforrad/''"

definition login ::
  "extern \<Rightarrow> client \<Rightarrow> (string \<times> string) list \<Rightarrow> event list \<Rightarrow> error option \<times> client \<times> event list" where
  "login x c hdrs tr =
     (case createLoginPayload x tr of
        (Inl err, tr1) \<Rightarrow> (Some err, c, tr1)
      | (Inr payload, tr1) \<Rightarrow>
          (case createHTTPRequest x ''POST'' loginURL payload hdrs tr1 of
             Inl err \<Rightarrow> (Some err, c, tr1)
           | Inr req \<Rightarrow>
               (case sendHTTPRequest x c req 302 tr1 of
                  ((_, Some err), c2, tr2) \<Rightarrow> (Some err, c2, tr2)
                | ((_, None), c2, tr2) \<Rightarrow> (None, c2, tr2))))"

definition forradURL :: string where
  "forradURL = ''https://www.stockholmshem.se/widgets/?callback=jQuery17105048823634686723_{epoch}&widgets%5B%5D=alert&widgets%5B%5D=objektlista%40forrad&_={epoch}''"

text \<open>\<^verbatim>\<open>forrad\<close>; the body that \<^verbatim>\<open>sendHTTPRequest\<close> returns without an error is never \<^verbatim>\<open>nil\<close>.\<close>

definition forrad ::
  "extern \<Rightarrow> client \<Rightarrow> (string \<times> string) list \<Rightarrow> event list
     \<Rightarrow> (bool \<times> error option) \<times> client \<times> event list" where
  "forrad x c hdrs tr =
     (case createHTTPRequest x ''GET'' forradURL [] hdrs tr of
        Inl err \<Rightarrow> ((False, Some err), c, tr)
      | Inr req \<Rightarrow>
          (case sendHTTPRequest x c req 200 tr of
             ((_, Some err), c1, tr1) \<Rightarrow> ((False, Some err), c1, tr1)
           | ((body, None), c1, tr1) \<Rightarrow>
               ((\<not> Contains (case body of None \<Rightarrow> [] | Some b \<Rightarrow> b) searchString, None), c1, tr1)))"

definition logLine :: string where
  "logLine = ''New f'' @ [CHR 0xC3, CHR 0xB6] @ ''rr'' @ [CHR 0xC3, CHR 0xA5] @ ''d detected!'' @ [CHR 0x0A]"

definition send :: "extern \<Rightarrow> bool \<Rightarrow> event list \<Rightarrow> error option \<times> event list" where
  "send x new tr =
     (if \<not> new then (None, tr)
      else
        let tr1 = tr @ [EvLog logLine, EvLookupEnv ''TOPIC'']
        in case Environ x ''TOPIC'' of
             None \<Rightarrow> (Some ''couldn't get TOPIC from environment'', tr1)
           | Some topic \<Rightarrow>
               (case LoadDefaultAWSConfig x of
                  Some err \<Rightarrow> (Some (''couldn't load AWS config. '' @ err), tr1 @ [EvLoadAWSConfig])
                | None \<Rightarrow>
                    let tr2 = tr1 @ [EvLoadAWSConfig, EvPublish snsSubject snsMessage topic]
                    in (case Publish x snsSubject snsMessage topic of
                          Some err \<Rightarrow> (Some (''couldn't publish to sns. '' @ err), tr2)
                        | None \<Rightarrow> (None, tr2))))"

definition handler :: "extern \<Rightarrow> event list \<Rightarrow> error option \<times> event list" where
  "handler x tr =
     (case createHTTPClient x 10000 of
        Inl err \<Rightarrow> (Some err, tr)
      | Inr c \<Rightarrow>
          (case login x c headers tr of
             (Some err, c1, tr1) \<Rightarrow> (Some err, tr1)
           | (None, c1, tr1) \<Rightarrow>
               (case forrad x c1 headers tr1 of
                  ((_, Some err), c2, tr2) \<Rightarrow> (Some err, tr2)
                | ((new, None), c2, tr2) \<Rightarrow> send x new tr2)))"

section \<open>A concrete outside world\<close>

text \<open>
  \<open>jar_holds j u ck\<close>: cookie \<open>ck\<close> has been stored in the jar under the URL \<open>u\<close>.
\<close>

definition jar_holds :: "jar \<Rightarrow> string \<Rightarrow> cookie \<Rightarrow> bool" where
  "jar_holds j u ck = list_ex (\<lambda>(u', cs). u' = u \<and> ck \<in> set cs) j"

text \<open>
  The examples below run in this outside world: the three variables are set, the clock
  stands at 1700000000.123456789 s, every request can be built, and the site answers the
  login request (the only POST) with one given response and every other request with
  another, each naming the request it answers.
\<close>

definition demoEnviron :: "string \<rightharpoonup> string" where
  "demoEnviron =
     [''PERSONNR'' \<mapsto> ''19900101-1234'', ''PASSWORD'' \<mapsto> ''p&ss w%rd='',
      ''TOPIC'' \<mapsto> ''arn:aws:sns:eu-north-1:123456789012:forrad'']"

definition demoResponse :: "int \<Rightarrow> cookie list \<Rightarrow> error + bytes \<Rightarrow> response" where
  "demoResponse status cookies body =
     \<lparr>StatusCode = status, Cookies = cookies, Body = body,
      Request = \<lparr>Method = [], URL = [], Payload = [], Header = []\<rparr>\<rparr>"

definition demoSite :: "response \<Rightarrow> response \<Rightarrow> client \<Rightarrow> request \<Rightarrow> error + response" where
  "demoSite loginResp forradResp c req =
     (if Method req = ''POST'' then Inr (loginResp\<lparr>Request := req\<rparr>)
      else Inr (forradResp\<lparr>Request := req\<rparr>))"

definition demoExtern ::
  "(string \<rightharpoonup> string) \<Rightarrow> (client \<Rightarrow> request \<Rightarrow> error + response) \<Rightarrow> error option \<Rightarrow> extern" where
  "demoExtern env site aws =
     \<lparr>Environ = env, Now = (\<lambda>tr. 1700000000123456789), cookiejar_New = None,
      NewRequest_error = (\<lambda>method url. None), RoundTrip = site,
      LoadDefaultAWSConfig = aws, Publish = (\<lambda>subject message topic. None)\<rparr>"

definition demoClient :: client where
  "demoClient =
     \<lparr>Jar = [], Timeout = 10000000000, CheckRedirect = (\<lambda>req via. Some ErrUseLastResponse)\<rparr>"

definition demoLoginRequest :: request where
  "demoLoginRequest =
     \<lparr>Method = ''POST'', URL = loginURL,
      Payload = ''Username=19900101-1234&Password=p&ss w%rd='', Header = headers\<rparr>"

definition demoForradRequest :: request where
  "demoForradRequest =
     \<lparr>Method = ''GET'',
      URL = ''https://www.stockholmshem.se/widgets/?callback=jQuery17105048823634686723_1700000000000&widgets%5B%5D=alert&widgets%5B%5D=objektlista%40forrad&_=1700000000000'',
      Payload = [], Header = headers\<rparr>"

section \<open>Facts about the library functions\<close>

lemma Contains_sublist: "Contains s sub \<longleftrightarrow> sublist sub s"
  by (induction s) (auto simp: sublist_Cons_right)

lemma ReplaceAll_Nil: "ReplaceAll [] old new = []"
  by (simp add: ReplaceAll.simps)

lemma ReplaceAll_match:
  "old \<noteq> [] \<Longrightarrow> prefix old (c # s) \<Longrightarrow>
   ReplaceAll (c # s) old new = new @ ReplaceAll (drop (length old) (c # s)) old new"
  by (subst ReplaceAll.simps) simp

lemma ReplaceAll_skip:
  "old \<noteq> [] \<Longrightarrow> \<not> prefix old (c # s) \<Longrightarrow>
   ReplaceAll (c # s) old new = c # ReplaceAll s old new"
  by (subst ReplaceAll.simps) simp

lemma prefix_ReplaceAll:
  assumes "old \<noteq> []" "new \<noteq> []" "set new \<inter> set p = {}"
  shows "prefix p (ReplaceAll s old new) \<Longrightarrow> prefix p s"
  using assms
proof (induction s old new arbitrary: p rule: ReplaceAll.induct)
  case (1 s old new)
  show ?case
  proof (cases s)
    case Nil
    with "1.prems" show ?thesis by (simp add: ReplaceAll_Nil)
  next
    case (Cons c cs)
    show ?thesis
    proof (cases p)
      case Nil
      then show ?thesis by simp
    next
      case pc: (Cons a q)
      show ?thesis
      proof (cases "prefix old s")
        case True
        with Cons "1.prems" have "prefix p (new @ ReplaceAll (drop (length old) s) old new)"
          by (simp add: ReplaceAll_match)
        with pc "1.prems" have "a = hd new"
          by (cases new) (auto simp: prefix_Cons)
        with pc "1.prems" have False by (cases new) auto
        then show ?thesis ..
      next
        case False
        with Cons "1.prems" have pr: "prefix p (c # ReplaceAll cs old new)"
          by (simp add: ReplaceAll_skip)
        with pc have ac: "a = c" and q: "prefix q (ReplaceAll cs old new)" by auto
        from "1.prems" pc have "set new \<inter> set q = {}" by auto
        with "1.IH"(2)[of q] False Cons "1.prems" q have "prefix q cs" by simp
        with ac pc Cons show ?thesis by simp
      qed
    qed
  qed
qed

lemma ReplaceAll_no_old:
  assumes "old \<noteq> []" "new \<noteq> []" "set new \<inter> set old = {}"
  shows "\<not> sublist old (ReplaceAll s old new)"
  using assms
proof (induction s old new rule: ReplaceAll.induct)
  case (1 s old new)
  show ?case
  proof (cases s)
    case Nil
    with "1.prems" show ?thesis by (simp add: ReplaceAll_Nil)
  next
    case (Cons c cs)
    show ?thesis
    proof (cases "prefix old s")
      case True
      let ?r = "ReplaceAll (drop (length old) s) old new"
      from True Cons "1.prems" have eq: "ReplaceAll s old new = new @ ?r"
        by (simp add: ReplaceAll_match)
      from "1.IH"(1) True Cons "1.prems" have ih: "\<not> sublist old ?r" by simp
      have "\<not> sublist old (ys @ ?r)" if "set ys \<subseteq> set new" for ys
        using that
      proof (induction ys)
        case Nil
        then show ?case using ih by simp
      next
        case (Cons y ys)
        have "\<not> prefix old (y # ys @ ?r)"
          using Cons.prems "1.prems" by (cases old) auto
        with Cons show ?case by (simp add: sublist_Cons_right)
      qed
      then show ?thesis using eq by simp
    next
      case False
      with Cons "1.prems" have eq: "ReplaceAll s old new = c # ReplaceAll cs old new"
        by (simp add: ReplaceAll_skip)
      from "1.IH"(2) False Cons "1.prems" have ih: "\<not> sublist old (ReplaceAll cs old new)" by simp
      have "\<not> prefix old (ReplaceAll s old new)"
        using prefix_ReplaceAll[OF "1.prems"(1) "1.prems"(2) "1.prems"(3)] False by blast
      with ih eq show ?thesis by (simp add: sublist_Cons_right)
    qed
  qed
qed

lemma digit_code: "0 \<le> n \<Longrightarrow> n < 10 \<Longrightarrow> (of_char (digit n) :: int) = 48 + n"
  by (simp add: digit_def)

lemma digit_code_nat: "0 \<le> n \<Longrightarrow> n < 10 \<Longrightarrow> (of_char (digit n) :: nat) < 58"
proof -
  assume a: "0 \<le> n" "n < 10"
  have "int (of_char (digit n)) = of_char (digit n)" by (rule of_nat_of_char)
  with a digit_code[of n] show ?thesis by linarith
qed

lemma itoa_digits: "0 \<le> n \<Longrightarrow> c \<in> set (itoa n) \<Longrightarrow> (of_char c :: nat) < 58"
proof (induction n arbitrary: c rule: itoa.induct)
  case (1 n)
  show ?case
  proof (cases "n < 10")
    case True
    with "1.prems" have "c = digit n" by (subst (asm) itoa.simps) simp
    with True "1.prems" show ?thesis by (simp add: digit_code_nat)
  next
    case False
    with "1.prems" have "c \<in> set (itoa (n div 10)) \<or> c = digit (n mod 10)"
      by (subst (asm) itoa.simps) auto
    then show ?thesis
    proof
      assume "c \<in> set (itoa (n div 10))"
      with "1.IH" False "1.prems" show ?thesis by simp
    next
      assume "c = digit (n mod 10)"
      then show ?thesis by (simp add: digit_code_nat)
    qed
  qed
qed

lemma itoa_not_Nil: "itoa n \<noteq> []"
  by (subst itoa.simps) simp

lemma Sprintf_d_not_Nil: "Sprintf_d i \<noteq> []"
  by (simp add: Sprintf_d_def itoa_not_Nil)

lemma Sprintf_d_chars: "c \<in> set (Sprintf_d i) \<Longrightarrow> (of_char c :: nat) < 58"
proof (cases "i < 0")
  case True
  assume "c \<in> set (Sprintf_d i)"
  with True have "c = CHR ''-'' \<or> c \<in> set (itoa (- i))" by (simp add: Sprintf_d_def)
  with True itoa_digits[of "- i" c] show ?thesis by auto
next
  case False
  assume "c \<in> set (Sprintf_d i)"
  with False itoa_digits[of i c] show ?thesis by (simp add: Sprintf_d_def)
qed

lemma Sprintf_d_epoch: "set (Sprintf_d i) \<inter> set epoch = {}"
proof -
  have "58 \<le> (of_char c :: nat)" if "c \<in> set epoch" for c
    using that by (auto simp: epoch_def)
  then show ?thesis using Sprintf_d_chars[of _ i] by fastforce
qed


lemma sint_now:
  assumes "- (2 ^ 63) \<le> (t div 1000000000) * 1000" "(t div 1000000000) * 1000 < 2 ^ 63"
  shows "sint (Unix t * 1000) = (t div 1000000000) * 1000"
proof -
  have e: "Unix t * 1000 = (word_of_int ((t div 1000000000) * 1000) :: 64 word)"
    by (simp add: Unix_def)
  have "sint (Unix t * 1000) = signed_take_bit 63 ((t div 1000000000) * 1000)"
    unfolding e by (simp only: sint_sbintrunc') simp
  also have "\<dots> = (t div 1000000000) * 1000"
    using assms by (intro signed_take_bit_int_eq_self) simp_all
  finally show ?thesis .
qed

lemma millis_window:
  "(t div 1000000000) * 1000 \<le> UnixMilli t \<and> UnixMilli t < (t div 1000000000) * 1000 + 1000"
proof -
  define m where "m = t div 1000000"
  have "t div 1000000000 = m div 1000"
    unfolding m_def using zdiv_zmult2_eq[of 1000 t 1000000] by simp
  moreover have "m = m div 1000 * 1000 + m mod 1000" by simp
  moreover have "0 \<le> m mod 1000" "m mod 1000 < 1000" by simp_all
  ultimately show ?thesis unfolding UnixMilli_def m_def [symmetric] by linarith
qed

lemma ReplaceAll_has_new:
  "old \<noteq> [] \<Longrightarrow> sublist old s \<Longrightarrow> sublist new (ReplaceAll s old new)"
proof (induction s old new rule: ReplaceAll.induct)
  case (1 s old new)
  show ?case
  proof (cases s)
    case Nil
    with "1.prems" show ?thesis by simp
  next
    case (Cons c cs)
    show ?thesis
    proof (cases "prefix old s")
      case True
      with Cons "1.prems" show ?thesis by (simp add: ReplaceAll_match)
    next
      case False
      with Cons "1.prems" have "sublist old cs" by (simp add: sublist_Cons_right)
      with "1.IH"(2) False Cons "1.prems" have "sublist new (ReplaceAll cs old new)" by simp
      with False Cons "1.prems" show ?thesis by (simp add: ReplaceAll_skip sublist_Cons_right)
    qed
  qed
qed

section \<open>Facts about the functions of the program\<close>

lemma client_Do_trace: "snd (snd (client_Do x c req tr)) = tr @ [EvDo req]"
  by (simp add: client_Do_def split: sum.splits)

lemma client_Do_Inl:
  "RoundTrip x c req = Inl e \<Longrightarrow> client_Do x c req tr = (Inl e, c, tr @ [EvDo req])"
  by (simp add: client_Do_def)

lemma client_Do_Inr:
  "RoundTrip x c req = Inr resp \<Longrightarrow>
   client_Do x c req tr =
     (Inr resp,
      (if Cookies resp \<noteq> [] then c\<lparr>Jar := SetCookies (Jar c) (URL req) (Cookies resp)\<rparr> else c),
      tr @ [EvDo req])"
  by (simp add: client_Do_def)

lemma sendHTTPRequest_transport:
  "RoundTrip x c req = Inl e \<Longrightarrow>
   sendHTTPRequest x c req statusCode tr =
     ((None, Some (''couldn't send http request. '' @ e)), c, tr @ [EvDo req])"
  by (simp add: sendHTTPRequest_def client_Do_Inl)

lemma sendHTTPRequest_body:
  "RoundTrip x c req = Inr resp \<Longrightarrow> Body resp = Inl e \<Longrightarrow>
   sendHTTPRequest x c req statusCode tr =
     ((None, Some (''couldn't read body of response. '' @ e)),
      fst (snd (client_Do x c req tr)), tr @ [EvDo req])"
  by (simp add: sendHTTPRequest_def client_Do_Inr)

lemma sendHTTPRequest_mismatch:
  "RoundTrip x c req = Inr resp \<Longrightarrow> Body resp = Inr body \<Longrightarrow> StatusCode resp \<noteq> statusCode \<Longrightarrow>
   sendHTTPRequest x c req statusCode tr =
     ((Some body,
       Some (''status code missmatch. wanted '' @ Sprintf_d statusCode @ '' got ''
             @ Sprintf_d (StatusCode resp) @ '' for '' @ URL (Request resp))),
      fst (snd (client_Do x c req tr)), tr @ [EvDo req])"
  by (simp add: sendHTTPRequest_def client_Do_Inr)

lemma sendHTTPRequest_match:
  "RoundTrip x c req = Inr resp \<Longrightarrow> Body resp = Inr body \<Longrightarrow> StatusCode resp = statusCode \<Longrightarrow>
   sendHTTPRequest x c req statusCode tr =
     ((Some body, None),
      (fst (snd (client_Do x c req tr)))
        \<lparr>Jar := SetCookies (Jar (fst (snd (client_Do x c req tr)))) (URL (Request resp)) (Cookies resp)\<rparr>,
      tr @ [EvDo req])"
  by (simp add: sendHTTPRequest_def client_Do_Inr)

lemma sendHTTPRequest_trace: "snd (snd (sendHTTPRequest x c req statusCode tr)) = tr @ [EvDo req]"
  by (simp add: sendHTTPRequest_def client_Do_def split: sum.splits)

lemma sendHTTPRequest_ok_iff:
  "snd (fst (sendHTTPRequest x c req statusCode tr)) = None \<longleftrightarrow>
   (\<exists>resp body. RoundTrip x c req = Inr resp \<and> Body resp = Inr body \<and> StatusCode resp = statusCode)"
  by (auto simp: sendHTTPRequest_def client_Do_def split: sum.splits)

lemma createHTTPRequest_URL:
  "createHTTPRequest x method url payload hdrs tr = Inr req \<Longrightarrow>
   URL req = ReplaceAll url epoch (Sprintf_d (sint (Unix (Now x tr) * 1000)))"
  by (auto simp: createHTTPRequest_def Let_def split: option.splits)

lemma createLoginPayload_ok:
  "Environ x ''PERSONNR'' = Some user \<Longrightarrow> Environ x ''PASSWORD'' = Some pass \<Longrightarrow>
   createLoginPayload x tr =
     (Inr (''Username='' @ user @ ''&Password='' @ pass),
      tr @ [EvLookupEnv ''PERSONNR'', EvLookupEnv ''PASSWORD''])"
  by (simp add: createLoginPayload_def)

lemma forrad_ok:
  assumes "createHTTPRequest x ''GET'' forradURL [] hdrs tr = Inr req"
    and "RoundTrip x c req = Inr resp" and "StatusCode resp = 200" and "Body resp = Inr body"
  shows "forrad x c hdrs tr =
           ((\<not> Contains body searchString, None),
            (fst (snd (client_Do x c req tr)))
              \<lparr>Jar := SetCookies (Jar (fst (snd (client_Do x c req tr)))) (URL (Request resp)) (Cookies resp)\<rparr>,
            tr @ [EvDo req])"
  using assms by (simp add: forrad_def sendHTTPRequest_match)

section \<open>The concrete outside world, evaluated\<close>

lemma demo_forrad_request:
  "createHTTPRequest (demoExtern env site aws) ''GET'' forradURL [] headers tr = Inr demoForradRequest"
  by code_simp

lemma demo_login_request:
  "createHTTPRequest (demoExtern env site aws) ''POST'' loginURL
     ''Username=19900101-1234&Password=p&ss w%rd='' headers tr = Inr demoLoginRequest"
  by code_simp

lemma Sprintf_d_302: "Sprintf_d 302 = ''302''" by code_simp
lemma Sprintf_d_200: "Sprintf_d 200 = ''200''" by code_simp

lemma demo_PERSONNR: "Environ (demoExtern demoEnviron site aws) ''PERSONNR'' = Some ''19900101-1234''"
  by (simp add: demoExtern_def demoEnviron_def)

lemma demo_PASSWORD: "Environ (demoExtern demoEnviron site aws) ''PASSWORD'' = Some ''p&ss w%rd=''"
  by (simp add: demoExtern_def demoEnviron_def)

lemma demo_TOPIC:
  "Environ (demoExtern demoEnviron site aws) ''TOPIC'' = Some ''arn:aws:sns:eu-north-1:123456789012:forrad''"
  by (simp add: demoExtern_def demoEnviron_def)

section \<open>The properties\<close>

text \<open>
  C2. Whatever the values of \<^verbatim>\<open>PERSONNR\<close> and \<^verbatim>\<open>PASSWORD\<close> are, the login payload is
  the bytes \<^verbatim>\<open>Username=\<close>, the first value, \<^verbatim>\<open>&Password=\<close>, the second value: the
  values are copied as they are, nothing is escaped.
\<close>

theorem createLoginPayload_exact:
  assumes "Environ x ''PERSONNR'' = Some user" and "Environ x ''PASSWORD'' = Some pass"
  shows "fst (createLoginPayload x tr) = Inr (''Username='' @ user @ ''&Password='' @ pass)"
  using assms by (simp add: createLoginPayload_ok)

text \<open>In the example the password holds \<^verbatim>\<open>&\<close>, a blank, \<^verbatim>\<open>%\<close> and \<^verbatim>\<open>=\<close>, all copied unchanged.\<close>

theorem createLoginPayload_exact_witness:
  "Environ (demoExtern demoEnviron (\<lambda>c req. Inl []) None) ''PERSONNR'' = Some ''19900101-1234''
   \<and> Environ (demoExtern demoEnviron (\<lambda>c req. Inl []) None) ''PASSWORD'' = Some ''p&ss w%rd=''
   \<and> fst (createLoginPayload (demoExtern demoEnviron (\<lambda>c req. Inl []) None) []) =
       Inr ''Username=19900101-1234&Password=p&ss w%rd=''"
  using createLoginPayload_exact[OF demo_PERSONNR demo_PASSWORD, of "\<lambda>c req. Inl []" None "[]"]
    demo_PERSONNR[of "\<lambda>c req. Inl []" None] demo_PASSWORD[of "\<lambda>c req. Inl []" None]
  by simp

text \<open>
  C5. A request that \<^verbatim>\<open>createHTTPRequest\<close> builds has the URL of the template with
  every \<^verbatim>\<open>{epoch}\<close> replaced by the decimal form of \<^verbatim>\<open>time.Now().Unix() * 1000\<close>: no
  \<^verbatim>\<open>{epoch}\<close> is left in it, the number is in it when the template had the placeholder,
  and, as long as the int64 product does not overflow, the number is the current time in
  milliseconds cut down to the full second (at most 999 ms behind it).
\<close>

theorem createHTTPRequest_replaces_epoch:
  assumes "createHTTPRequest x method url payload hdrs tr = Inr req"
  shows "URL req = ReplaceAll url epoch (Sprintf_d (sint (Unix (Now x tr) * 1000)))
       \<and> \<not> sublist epoch (URL req)
       \<and> (sublist epoch url \<longrightarrow> sublist (Sprintf_d (sint (Unix (Now x tr) * 1000))) (URL req))
       \<and> (- (2 ^ 63) \<le> (Now x tr div 1000000000) * 1000 \<and> (Now x tr div 1000000000) * 1000 < 2 ^ 63 \<longrightarrow>
            sint (Unix (Now x tr) * 1000) \<le> UnixMilli (Now x tr)
            \<and> UnixMilli (Now x tr) < sint (Unix (Now x tr) * 1000) + 1000)"
proof -
  let ?d = "Sprintf_d (sint (Unix (Now x tr) * 1000))"
  have u: "URL req = ReplaceAll url epoch ?d"
    using assms by (rule createHTTPRequest_URL)
  have e: "epoch \<noteq> []" by (simp add: epoch_def)
  have "\<not> sublist epoch (ReplaceAll url epoch ?d)"
    using e Sprintf_d_not_Nil Sprintf_d_epoch by (rule ReplaceAll_no_old)
  moreover have "sublist epoch url \<longrightarrow> sublist ?d (ReplaceAll url epoch ?d)"
    using e by (simp add: ReplaceAll_has_new)
  moreover have "- (2 ^ 63) \<le> (Now x tr div 1000000000) * 1000 \<and> (Now x tr div 1000000000) * 1000 < 2 ^ 63 \<longrightarrow>
            sint (Unix (Now x tr) * 1000) \<le> UnixMilli (Now x tr)
            \<and> UnixMilli (Now x tr) < sint (Unix (Now x tr) * 1000) + 1000"
    using millis_window[of "Now x tr"] by (simp add: sint_now)
  ultimately show ?thesis using u by simp
qed


theorem createHTTPRequest_replaces_epoch_witness:
  "createHTTPRequest (demoExtern demoEnviron (demoSite (demoResponse 302 [] (Inr [])) (demoResponse 200 [] (Inr []))) None)
      ''GET'' forradURL [] headers [] = Inr demoForradRequest
   \<and> sublist epoch forradURL
   \<and> \<not> sublist epoch (URL demoForradRequest)
   \<and> sublist ''1700000000000'' (URL demoForradRequest)
   \<and> (1700000000000 :: int) \<le> UnixMilli 1700000000123456789
   \<and> UnixMilli 1700000000123456789 < 1700000000000 + 1000"
proof -
  let ?x = "demoExtern demoEnviron (demoSite (demoResponse 302 [] (Inr [])) (demoResponse 200 [] (Inr []))) None"
  have h: "createHTTPRequest ?x ''GET'' forradURL [] headers [] = Inr demoForradRequest"
    by (rule demo_forrad_request)
  have n: "Now ?x [] = 1700000000123456789" by (simp add: demoExtern_def)
  have s: "sint (Unix 1700000000123456789 * 1000) = 1700000000000" by (simp add: Unix_def)
  have d: "Sprintf_d 1700000000000 = ''1700000000000''" by code_simp
  have p: "sublist epoch forradURL" by code_simp
  note t = createHTTPRequest_replaces_epoch[OF h]
  from t have a: "\<not> sublist epoch (URL demoForradRequest)" by (rule conjunct1[OF conjunct2])
  from t p have "sublist (Sprintf_d (sint (Unix (Now ?x []) * 1000))) (URL demoForradRequest)"
    by blast
  then have b: "sublist ''1700000000000'' (URL demoForradRequest)"
    unfolding n s d .
  from t have "- (2 ^ 63) \<le> (Now ?x [] div 1000000000) * 1000 \<and> (Now ?x [] div 1000000000) * 1000 < 2 ^ 63 \<longrightarrow>
            sint (Unix (Now ?x []) * 1000) \<le> UnixMilli (Now ?x [])
            \<and> UnixMilli (Now ?x []) < sint (Unix (Now ?x []) * 1000) + 1000"
    by blast
  then have c: "(1700000000000 :: int) \<le> UnixMilli 1700000000123456789
      \<and> UnixMilli 1700000000123456789 < 1700000000000 + 1000"
    unfolding n s by simp
  from h p a b c show ?thesis by blast
qed

end
